theory Spec2Isabelle
  imports Complex_Main
begin

section \<open>Tensors and scalars\<close>

text \<open>
  The losses of \<^verbatim>\<open>loss_functions.py\<close> work on \<^verbatim>\<open>float32\<close> tensors. A finite
  \<^verbatim>\<open>float32\<close> value is modelled by the real number it denotes, so rounding and
  overflow are idealised away. A scalar that TensorFlow computes and that may fail to be
  finite (\<^verbatim>\<open>NaN\<close>, \<^verbatim>\<open>+Inf\<close>, \<^verbatim>\<open>-Inf\<close>) is a \<open>real option\<close>, with \<open>None\<close> for
  "not a finite number". Addition, division by a finite non-zero number and
  multiplication by a finite non-zero number all keep a non-finite operand non-finite,
  which is how \<open>None\<close> is propagated below.

  A tensor of shape \<^verbatim>\<open>[N, d]\<close> is a list of \<open>N\<close> rows, a tensor of shape
  \<^verbatim>\<open>[B, A, d]\<close> a list of \<open>B\<close> such tensors.
\<close>

type_synonym tensor2 = "real list list"
type_synonym tensor3 = "real list list list"

definition tmap :: "('a \<Rightarrow> 'b) \<Rightarrow> 'a list list \<Rightarrow> 'b list list" where
  "tmap f t = map (map f) t"

definition tmap2 :: "('a \<Rightarrow> 'b \<Rightarrow> 'c) \<Rightarrow> 'a list list \<Rightarrow> 'b list list \<Rightarrow> 'c list list" where
  "tmap2 f s t = map2 (map2 f) s t"

text \<open>
  \<^verbatim>\<open>tf.where(cond, x, y)\<close> on three tensors of one shape: elementwise choice.
\<close>

definition tf_where :: "bool list list \<Rightarrow> 'a list list \<Rightarrow> 'a list list \<Rightarrow> 'a list list" where
  "tf_where c x y = tmap2 (\<lambda>b (u, v). if b then u else v) c (tmap2 Pair x y)"

text \<open>
  Two tensors have the same shape. TensorFlow broadcasts (or raises) on operands of
  different shapes; the elementwise operations above are meant for equal shapes only,
  and the theorems on them assume it.
\<close>

definition same_shape :: "'a list list \<Rightarrow> 'b list list \<Rightarrow> bool" where
  "same_shape s t \<longleftrightarrow> map length s = map length t"

definition tf_sigmoid :: "real \<Rightarrow> real" where
  "tf_sigmoid x = 1 / (1 + exp (- x))"

text \<open>
  \<^verbatim>\<open>tf.clip_by_value(t, lo, hi)\<close> is \<^verbatim>\<open>maximum(minimum(t, hi), lo)\<close>.
\<close>

definition clip_by_value :: "real \<Rightarrow> real \<Rightarrow> real \<Rightarrow> real" where
  "clip_by_value t lo hi = max (min t hi) lo"

text \<open>
  \<^verbatim>\<open>tf.pow(x, g)\<close> and \<^verbatim>\<open>tf.math.log(x)\<close> are only ever applied to \<open>x > 0\<close> here
  (see \<open>pt_in_unit_interval\<close>), where they are \<open>x powr g\<close> and \<open>ln x\<close>.
\<close>

definition tf_pow :: "real \<Rightarrow> real \<Rightarrow> real" where
  "tf_pow x g = x powr g"

definition tf_log :: "real \<Rightarrow> real" where
  "tf_log x = ln x"

text \<open>
  \<^verbatim>\<open>tf.reduce_sum\<close> and \<^verbatim>\<open>tf.reduce_mean\<close>. The mean of no elements is \<^verbatim>\<open>0/0\<close>,
  that is \<^verbatim>\<open>NaN\<close>.
\<close>

definition reduce_sum :: "real list \<Rightarrow> real" where
  "reduce_sum xs = sum_list xs"

definition reduce_mean :: "real list \<Rightarrow> real option" where
  "reduce_mean xs = (if xs = [] then None else Some (sum_list xs / real (length xs)))"

fun reduce_sum_opt :: "real option list \<Rightarrow> real option" where
  "reduce_sum_opt [] = Some 0"
| "reduce_sum_opt (None # xs) = None"
| "reduce_sum_opt (Some x # xs) = map_option (\<lambda>s. x + s) (reduce_sum_opt xs)"

definition reduce_mean_opt :: "real option list \<Rightarrow> real option" where
  "reduce_mean_opt xs =
     (if xs = [] then None
      else map_option (\<lambda>s. s / real (length xs)) (reduce_sum_opt xs))"

text \<open>
  What a loss function returns: a scalar for the reductions \<^verbatim>\<open>'mean'\<close> and
  \<^verbatim>\<open>'sum'\<close>, the unreduced tensor for any other \<^verbatim>\<open>reduction\<close> string.
\<close>

datatype 'a loss_out = Scalar "real option" | Unreduced 'a

section \<open>\<^verbatim>\<open>focal_loss\<close>\<close>

definition focal_loss ::
  "tensor2 \<Rightarrow> tensor2 \<Rightarrow> real \<Rightarrow> real \<Rightarrow> bool \<Rightarrow> string \<Rightarrow> tensor2 loss_out" where
  "focal_loss y_true y_pred gamma alpha from_logits reduction =
     (let y_pred = (if from_logits then tmap tf_sigmoid y_pred else y_pred);
          epsilon = 1 / 10 ^ 6;
          y_pred = tmap (\<lambda>p. clip_by_value p epsilon (1 - epsilon)) y_pred;
          alpha_t = tmap (\<lambda>y. 1 * alpha) y_true;
          alpha_t = tf_where (tmap (\<lambda>y. y = 1) y_true) alpha_t (tmap (\<lambda>a. 1 - a) alpha_t);
          pt = tf_where (tmap (\<lambda>y. y = 1) y_true) y_pred (tmap (\<lambda>p. 1 - p) y_pred);
          loss = tmap2 (*) (tmap2 (*) (tmap uminus alpha_t) (tmap (\<lambda>q. tf_pow (1 - q) gamma) pt))
                   (tmap tf_log pt)
      in if reduction = ''mean'' then Scalar (reduce_mean (concat loss))
         else if reduction = ''sum'' then Scalar (Some (reduce_sum (concat loss)))
         else Unreduced loss)"

text \<open>The defaults of the signature: \<^verbatim>\<open>gamma=1.5, alpha=0.25, from_logits=False, reduction='sum'\<close>.\<close>

definition focal_loss_default :: "tensor2 \<Rightarrow> tensor2 \<Rightarrow> tensor2 loss_out" where
  "focal_loss_default y_true y_pred = focal_loss y_true y_pred (3 / 2) (1 / 4) False ''sum''"

text \<open>
  The focal term of one anchor and one class as the specification words it: the
  probability \<open>p\<close> (through the sigmoid for logits) clipped into \<open>[\<epsilon>, 1 - \<epsilon>]\<close>,
  \<open>p\<^sub>t\<close> and \<open>\<alpha>\<^sub>t\<close> chosen by the label, and \<open>- \<alpha>\<^sub>t (1 - p\<^sub>t)\<^sup>\<gamma> log p\<^sub>t\<close>.
\<close>

definition focal_term_spec :: "real \<Rightarrow> real \<Rightarrow> bool \<Rightarrow> real \<Rightarrow> real \<Rightarrow> real" where
  "focal_term_spec gamma alpha from_logits y p =
     (let p = (if from_logits then 1 / (1 + exp (- p)) else p);
          p = max (1 / 10 ^ 6) (min p (1 - 1 / 10 ^ 6));
          p_t = (if y = 1 then p else 1 - p);
          alpha_t = (if y = 1 then alpha else 1 - alpha)
      in - alpha_t * (1 - p_t) powr gamma * ln p_t)"

section \<open>\<^verbatim>\<open>huber_loss\<close>\<close>

definition huber_loss ::
  "tensor2 \<Rightarrow> tensor2 \<Rightarrow> real \<Rightarrow> string \<Rightarrow> (real option list) loss_out" where
  "huber_loss y_true y_pred clip_delta reduction =
     (let error = tmap2 (-) y_true y_pred;
          cond = tmap (\<lambda>e. \<bar>e\<bar> < clip_delta) error;
          squared_loss = tmap (\<lambda>e. 0.5 * (e * e)) error;
          linear_loss = tmap (\<lambda>e. clip_delta * (\<bar>e\<bar> - 0.5 * clip_delta)) error;
          loss = tf_where cond squared_loss linear_loss;
          loss = map reduce_mean loss
      in if reduction = ''mean'' then Scalar (reduce_mean_opt loss)
         else if reduction = ''sum'' then Scalar (reduce_sum_opt loss)
         else Unreduced loss)"

text \<open>The defaults of the signature: \<^verbatim>\<open>clip_delta=1.0, reduction='sum'\<close>.\<close>

definition huber_loss_default :: "tensor2 \<Rightarrow> tensor2 \<Rightarrow> (real option list) loss_out" where
  "huber_loss_default y_true y_pred = huber_loss y_true y_pred 1 ''sum''"

text \<open>The Huber term of one coordinate as the specification words it.\<close>

definition huber_term_spec :: "real \<Rightarrow> real \<Rightarrow> real" where
  "huber_term_spec delta e = (if \<bar>e\<bar> < delta then 0.5 * e\<^sup>2 else delta * (\<bar>e\<bar> - 0.5 * delta))"


section \<open>The loss classes\<close>

text \<open>
  \<^verbatim>\<open>EfficientDetFocalLoss\<close> and \<^verbatim>\<open>EfficientDetHuberLoss\<close> do not call the two
  functions above: each holds a library loss object
  (\<^verbatim>\<open>tfa.losses.SigmoidFocalCrossEntropy\<close>, \<^verbatim>\<open>tf.losses.Huber\<close>) built with
  \<^verbatim>\<open>reduction=Reduction.SUM\<close>. The library computes one loss per sample (here: per
  gathered anchor row), possibly a non-finite one; that function is the parameter
  \<open>per_sample\<close>, and the \<^verbatim>\<open>SUM\<close> reduction of the source is \<open>loss_fn\<close>.
\<close>

datatype error =
    ValueError string
  | KeyError string
  | AttributeError string
  | SyntaxError string
  | InvalidArgumentError
  | Raised string

subsection \<open>The constructors\<close>

text \<open>
  Inside a class body Python rewrites a name with two leading underscores and without
  two trailing ones to \<^verbatim>\<open>_Class__name\<close>; \<^verbatim>\<open>__init__\<close> is left alone.
\<close>

definition mangle :: "string \<Rightarrow> string \<Rightarrow> string" where
  "mangle cls name =
     (if take 2 name = ''__'' \<and> take 2 (rev name) \<noteq> ''__'' then ''_'' @ cls @ name else name)"

text \<open>
  A call \<^verbatim>\<open>super(C, self).name()\<close> in the constructor of a subclass of
  \<^verbatim>\<open>tf.keras.losses.Loss\<close>. The base class has an initialiser; it has no attribute
  under a name mangled for one of the two subclasses of this file, and the lookup
  raises \<^verbatim>\<open>AttributeError\<close>.
\<close>

definition super_call :: "string \<Rightarrow> string \<Rightarrow> error + unit" where
  "super_call cls name =
     (if mangle cls name = ''__init__'' then Inr () else Inl (AttributeError (mangle cls name)))"

text \<open>
  The objects hold the hyperparameters; the library loss they also hold is the
  parameter \<open>per_sample\<close> of the \<^verbatim>\<open>call\<close> methods.
  \<^verbatim>\<open>EfficientDetFocalLoss.__init__\<close> (line 56) calls \<^verbatim>\<open>__init__()\<close> on the base class;
  \<^verbatim>\<open>EfficientDetHuberLoss.__init__\<close> (line 84) calls \<^verbatim>\<open>__init()\<close>.
\<close>

datatype EfficientDetFocalLoss = FocalLoss_object real real

datatype EfficientDetHuberLoss = HuberLoss_object real

definition EfficientDetFocalLoss_init :: "real \<Rightarrow> real \<Rightarrow> error + EfficientDetFocalLoss" where
  "EfficientDetFocalLoss_init alpha gamma =
     (case super_call ''EfficientDetFocalLoss'' ''__init__'' of
        Inl e \<Rightarrow> Inl e
      | Inr _ \<Rightarrow> Inr (FocalLoss_object alpha gamma))"

definition EfficientDetHuberLoss_init :: "real \<Rightarrow> error + EfficientDetHuberLoss" where
  "EfficientDetHuberLoss_init delta =
     (case super_call ''EfficientDetHuberLoss'' ''__init'' of
        Inl e \<Rightarrow> Inl e
      | Inr _ \<Rightarrow> Inr (HuberLoss_object delta))"

subsection \<open>\<^verbatim>\<open>EfficientDetFocalLoss.call\<close>\<close>

text \<open>
  \<^verbatim>\<open>t[:, :, -1]\<close> and \<^verbatim>\<open>t[:, :, :-1]\<close>. Index \<^verbatim>\<open>-1\<close> on an axis of extent 0 is
  out of bounds.
\<close>

definition slice_last :: "tensor3 \<Rightarrow> error + tensor2" where
  "slice_last t = (if [] \<in> set (concat t) then Inl InvalidArgumentError else Inr (tmap last t))"

definition slice_butlast :: "tensor3 \<Rightarrow> tensor3" where
  "slice_butlast t = tmap butlast t"

text \<open>
  \<^verbatim>\<open>tf.where(cond)\<close> with one argument, on a boolean tensor of shape \<^verbatim>\<open>[B, A]\<close>:
  the index pairs of the true entries in row-major order.
\<close>

fun where_from :: "nat \<Rightarrow> bool list list \<Rightarrow> (nat \<times> nat) list" where
  "where_from b [] = []"
| "where_from b (row # rows) =
     map (Pair b) (filter (\<lambda>a. row ! a) [0..<length row]) @ where_from (Suc b) rows"

definition tf_where_idx :: "bool list list \<Rightarrow> (nat \<times> nat) list" where
  "tf_where_idx c = where_from 0 c"

text \<open>
  \<^verbatim>\<open>tf.gather_nd(params, indices)\<close> on a tensor of shape \<^verbatim>\<open>[B, A, d]\<close> with index
  pairs into the first two axes. Asking for at least one row of a tensor without
  elements is an error (\<^verbatim>\<open>Requested more than 0 entries, but params is empty\<close>), and
  so is an index out of range (as on CPU).
\<close>

definition gather_nd :: "'a list list list \<Rightarrow> (nat \<times> nat) list \<Rightarrow> error + 'a list list" where
  "gather_nd params indices =
     (if indices \<noteq> [] \<and> concat (concat params) = [] then Inl InvalidArgumentError
      else if list_all (\<lambda>(b, a). b < length params \<and> a < length (params ! b)) indices
      then Inr (map (\<lambda>(b, a). params ! b ! a) indices)
      else Inl InvalidArgumentError)"

text \<open>
  \<^verbatim>\<open>tf.divide\<close> of a scalar by a finite number: a quotient by zero is \<^verbatim>\<open>NaN\<close> or
  infinite, in each case not finite.
\<close>

definition tf_divide :: "real option \<Rightarrow> real \<Rightarrow> real option" where
  "tf_divide x y = (case x of None \<Rightarrow> None | Some a \<Rightarrow> if y = 0 then None else Some (a / y))"

definition loss_fn ::
  "(real list \<Rightarrow> real list \<Rightarrow> real option) \<Rightarrow> tensor2 \<Rightarrow> tensor2 \<Rightarrow> real option" where
  "loss_fn per_sample y_true y_pred = reduce_sum_opt (map2 per_sample y_true y_pred)"

definition EfficientDetFocalLoss_call ::
  "(real list \<Rightarrow> real list \<Rightarrow> real option) \<Rightarrow> tensor3 \<Rightarrow> tensor3 \<Rightarrow> error + real option" where
  "EfficientDetFocalLoss_call per_sample y_true y_pred =
     (case slice_last y_true of
        Inl e \<Rightarrow> Inl e
      | Inr anchors_states \<Rightarrow>
          (let labels = slice_butlast y_true;
               not_ignore_idx = tf_where_idx (tmap (\<lambda>s. s \<noteq> - 1) anchors_states);
               true_idx = tf_where_idx (tmap (\<lambda>s. s = 1) anchors_states);
               normalizer = real (length true_idx);
               normalizer = max 1 normalizer
           in case gather_nd labels not_ignore_idx of
                Inl e \<Rightarrow> Inl e
              | Inr y_true \<Rightarrow>
                  (case gather_nd y_pred not_ignore_idx of
                     Inl e \<Rightarrow> Inl e
                   | Inr y_pred \<Rightarrow>
                       Inr (tf_divide (loss_fn per_sample y_true y_pred) normalizer))))"

subsection \<open>\<^verbatim>\<open>EfficientDetHuberLoss\<close> as it stands\<close>

text \<open>
  The assignment on line 94 of \<^verbatim>\<open>EfficientDetHuberLoss.call\<close>,
  \<^verbatim>\<open>true_idx = tf.where(tf.equal(anchors_states, 1.)\<close>, never closes its parenthesis:
  the method is not a Python function body and Python rejects it with a
  \<^verbatim>\<open>SyntaxError\<close>. No reading of the method is supplied here.

  A loss value is obtained by building the loss object and applying it to the two
  tensors. For the Huber loss the constructor already ends in the
  \<^verbatim>\<open>AttributeError\<close> of line 84.
\<close>

definition EfficientDetHuberLoss_call ::
  "EfficientDetHuberLoss \<Rightarrow> tensor3 \<Rightarrow> tensor3 \<Rightarrow> error + real option" where
  "EfficientDetHuberLoss_call self y_true y_pred = Inl (SyntaxError ''loss_functions.py, line 94'')"

definition EfficientDetHuberLoss_loss :: "real \<Rightarrow> tensor3 \<Rightarrow> tensor3 \<Rightarrow> error + real option" where
  "EfficientDetHuberLoss_loss delta y_true y_pred =
     (case EfficientDetHuberLoss_init delta of
        Inl e \<Rightarrow> Inl e
      | Inr self \<Rightarrow> EfficientDetHuberLoss_call self y_true y_pred)"

definition EfficientDetFocalLoss_loss ::
  "real \<Rightarrow> real \<Rightarrow> (real list \<Rightarrow> real list \<Rightarrow> real option) \<Rightarrow> tensor3 \<Rightarrow> tensor3
     \<Rightarrow> error + real option" where
  "EfficientDetFocalLoss_loss alpha gamma per_sample y_true y_pred =
     (case EfficientDetFocalLoss_init alpha gamma of
        Inl e \<Rightarrow> Inl e
      | Inr self \<Rightarrow> EfficientDetFocalLoss_call per_sample y_true y_pred)"

text \<open>
  The anchors of a batch, image after image: each with its target row (labels or box
  offsets, then the anchor state) and its prediction row. The number of positive
  anchors is the number of target rows whose state is 1.
\<close>

definition anchor_rows :: "tensor3 \<Rightarrow> tensor3 \<Rightarrow> (real list \<times> real list) list" where
  "anchor_rows y_true y_pred = zip (concat y_true) (concat y_pred)"

definition count_positive :: "tensor3 \<Rightarrow> nat" where
  "count_positive y_true = length (filter (\<lambda>t. last t = 1) (concat y_true))"


section \<open>The detector model\<close>

text \<open>
  \<^verbatim>\<open>efficientdet.py\<close>. The backbone, the neck, the two heads, the detection filter,
  the compound-scaling configuration and the checkpoint utilities live in modules
  outside this file; the model takes them as fields of \<open>environment\<close>, each
  returning its result or the exception it raised. Construction is an action: the list
  of collaborator calls made so far, and the model or the exception that ended it.

  Two more things that the text of the constructor does not determine are fields of the
  environment. Line 34 tests \<^verbatim>\<open>weights is 'imagenet'\<close>, the identity of two objects:
  \<open>weights_is_literal\<close> says whether the argument is the very object of that literal
  (it is for an argument left to its default or written as a literal, which CPython
  interns; it need not be for an equal string built at run time). The message literals
  of lines 31 and 35 are never terminated, so what these two exceptions say is not
  fixed by the source: \<open>unavailable_message\<close> and \<open>from_scratch_message\<close>.

  Values read from the checkpoint's \<^verbatim>\<open>hp.json\<close> are JSON values. \<open>py_eq_int\<close> is
  Python's \<^verbatim>\<open>==\<close> between an \<^verbatim>\<open>int\<close> and such a value.
\<close>

datatype json = JNum real | JBool bool | JStr string | JNull | JOther

definition py_eq_int :: "int \<Rightarrow> json \<Rightarrow> bool" where
  "py_eq_int n v =
     (case v of JNum r \<Rightarrow> of_int n = r | JBool b \<Rightarrow> n = (if b then 1 else 0) | _ \<Rightarrow> False)"

text \<open>
  The attributes of \<^verbatim>\<open>config.EfficientDetCompudScaling\<close> that the constructor reads,
  and the \<^verbatim>\<open>FilterDetections\<close> layer with the attribute that the
  \<^verbatim>\<open>score_threshold\<close> property reads and writes.
\<close>

record Config =
  B :: int
  Wbifpn :: int
  Dbifpn :: int
  Dclass :: int
  input_size :: "int list"

record 'ac FilterDetections =
  anchors_config :: 'ac
  score_threshold :: real

record ('img, 'fs, 'f, 'ac) EfficientDet =
  config :: Config
  backbone :: "'img \<Rightarrow> bool \<Rightarrow> 'fs"
  backbone_trainable :: bool
  neck :: "'fs \<Rightarrow> bool \<Rightarrow> 'f list"
  num_classes :: int
  class_head :: "'f \<Rightarrow> bool \<Rightarrow> tensor3"
  bb_head :: "'f \<Rightarrow> bool \<Rightarrow> tensor3"
  training_mode :: bool
  filter_detections :: "'ac FilterDetections"

record ('img, 'fs, 'f, 'ac) environment =
  weights_is_literal :: bool
  unavailable_message :: "string \<Rightarrow> string"
  from_scratch_message :: string
  download_folder :: "string \<Rightarrow> error + string"
  load_hp :: "string \<Rightarrow> error + (string \<rightharpoonup> json)"
  EfficientDetCompudScaling :: "json \<Rightarrow> error + Config"
  efficientnet_backbone :: "int \<Rightarrow> string option \<Rightarrow> error + ('img \<Rightarrow> bool \<Rightarrow> 'fs)"
  BiFPN :: "int \<Rightarrow> int \<Rightarrow> string \<Rightarrow> error + ('fs \<Rightarrow> bool \<Rightarrow> 'f list)"
  RetinaNetClassifier :: "int \<Rightarrow> int \<Rightarrow> int \<Rightarrow> string \<Rightarrow> error + ('f \<Rightarrow> bool \<Rightarrow> tensor3)"
  RetinaNetBBPredictor :: "int \<Rightarrow> int \<Rightarrow> string \<Rightarrow> error + ('f \<Rightarrow> bool \<Rightarrow> tensor3)"
  AnchorsConfig :: "error + 'ac"
  build :: "('img, 'fs, 'f, 'ac) EfficientDet \<Rightarrow> int option list
              \<Rightarrow> error + ('img, 'fs, 'f, 'ac) EfficientDet"
  load_weights :: "('img, 'fs, 'f, 'ac) EfficientDet \<Rightarrow> string \<Rightarrow> bool
              \<Rightarrow> error + ('img, 'fs, 'f, 'ac) EfficientDet"

datatype event =
    KerasModelInit
  | DownloadFolder string
  | ReadHyperparameters string
  | MakeConfig json
  | MakeBackbone
  | MakeNeck
  | MakeClassHead int
  | MakeBBHead
  | MakeFilterDetections
  | Build
  | LoadWeights string

type_synonym 'a action = "event list \<times> (error + 'a)"

definition raise :: "error \<Rightarrow> 'a action" where
  "raise e = ([], Inl e)"

definition return :: "'a \<Rightarrow> 'a action" where
  "return x = ([], Inr x)"

definition extern :: "event \<Rightarrow> error + 'a \<Rightarrow> 'a action" where
  "extern ev r = ([ev], r)"

definition and_then :: "'a action \<Rightarrow> ('a \<Rightarrow> 'b action) \<Rightarrow> 'b action" where
  "and_then m f =
     (case m of
        (tr, Inl e) \<Rightarrow> (tr, Inl e)
      | (tr, Inr x) \<Rightarrow> (case f x of (tr', r) \<Rightarrow> (tr @ tr', r)))"

text \<open>
  \<^verbatim>\<open>_AVAILABLE_WEIGHTS\<close>, \<^verbatim>\<open>_WEIGHTS_PATHS\<close> and dictionary subscription.
\<close>

definition AVAILABLE_WEIGHTS :: "string option set" where
  "AVAILABLE_WEIGHTS = {None, Some ''imagenet'', Some ''D0-VOC''}"

definition WEIGHTS_PATHS :: "string \<rightharpoonup> string" where
  "WEIGHTS_PATHS = [''D0-VOC'' \<mapsto> ''gs://ml-generic-purpose-tf-models/D0-VOC'']"

definition subscript :: "(string \<rightharpoonup> 'v) \<Rightarrow> string \<Rightarrow> 'v action" where
  "subscript d k = (case d k of None \<Rightarrow> raise (KeyError k) | Some v \<Rightarrow> return v)"

text \<open>
  \<^verbatim>\<open>EfficientDet.__init__\<close>, check by check. The arguments carry the names of record
  fields, hence the \<open>\<lambda>\<close>. An object identical to the literal \<^verbatim>\<open>'imagenet'\<close> is a
  string equal to it.
\<close>

definition EfficientDet_init ::
  "('img, 'fs, 'f, 'ac) environment \<Rightarrow> int option \<Rightarrow> int \<Rightarrow> bool \<Rightarrow> bool \<Rightarrow> real
     \<Rightarrow> string option \<Rightarrow> bool \<Rightarrow> bool \<Rightarrow> ('img, 'fs, 'f, 'ac) EfficientDet action" where
  "EfficientDet_init =
     (\<lambda>env num_classes D bidirectional freeze_backbone score_threshold weights
       custom_head_classifier training_mode.
     and_then (extern KerasModelInit (Inr ())) (\<lambda>_.
     and_then (if custom_head_classifier \<and> num_classes = None
               then raise (ValueError ''If include_top is False, you must specify the num_classes'')
               else return ()) (\<lambda>_.
     and_then (if weights \<notin> AVAILABLE_WEIGHTS
               then raise (ValueError (unavailable_message env (the weights)))
               else return ()) (\<lambda>_.
     and_then (if ((weights = Some ''imagenet'' \<and> weights_is_literal env) \<or> weights = None)
                  \<and> custom_head_classifier
               then raise (ValueError (from_scratch_message env))
               else return ()) (\<lambda>_.
     and_then (if weights \<noteq> Some ''imagenet'' \<and> weights \<noteq> None
               then
                 and_then (subscript WEIGHTS_PATHS (the weights)) (\<lambda>checkpoint_path.
                 and_then (extern (DownloadFolder checkpoint_path)
                             (download_folder env checkpoint_path)) (\<lambda>save_dir.
                 and_then (extern (ReadHyperparameters (save_dir @ ''/hp.json''))
                             (load_hp env (save_dir @ ''/hp.json''))) (\<lambda>params.
                 and_then (if num_classes \<noteq> None \<and> \<not> custom_head_classifier
                           then and_then (subscript params ''n_classes'') (\<lambda>n_classes.
                                  if \<not> py_eq_int (the num_classes) n_classes
                                  then raise (ValueError (''Weights '' @ the weights
                                         @ '' num classes are different from num_classes argument, please leave it as None or specify the correct classes''))
                                  else return ())
                           else return ()) (\<lambda>_.
                 and_then (subscript params ''bidirectional'') (\<lambda>bidirectional.
                 and_then (subscript params ''efficientdet'') (\<lambda>D.
                 return (Some save_dir, bidirectional, D)))))))
               else return (None, JBool bidirectional, JNum (of_int D))) (\<lambda>(save_dir, bidirectional, D).
     and_then (extern (MakeConfig D) (EfficientDetCompudScaling env D)) (\<lambda>config.
     let backbone_weights = (if weights = Some ''imagenet'' then Some ''imagenet'' else None) in
     and_then (extern MakeBackbone (efficientnet_backbone env (B config) backbone_weights)) (\<lambda>backbone.
     and_then (extern MakeNeck (BiFPN env (Wbifpn config) (Dbifpn config) ''bifpn/'')) (\<lambda>neck.
     and_then (if num_classes = None
               then raise (ValueError ''You have to specify the number of classes.'')
               else return (the num_classes)) (\<lambda>num_classes.
     and_then (extern (MakeClassHead num_classes)
                 (RetinaNetClassifier env (Wbifpn config) (Dclass config) num_classes ''class_head/'')) (\<lambda>class_head.
     and_then (extern MakeBBHead
                 (RetinaNetBBPredictor env (Wbifpn config) (Dclass config) ''regress_head/'')) (\<lambda>bb_head.
     and_then (extern MakeFilterDetections (AnchorsConfig env)) (\<lambda>anchors.
     let self = \<lparr>config = config, backbone = backbone, backbone_trainable = \<not> freeze_backbone,
                 neck = neck, num_classes = num_classes, class_head = class_head,
                 bb_head = bb_head, training_mode = training_mode,
                 filter_detections = \<lparr>anchors_config = anchors, score_threshold = score_threshold\<rparr>\<rparr> in
     if weights \<noteq> None \<and> weights \<noteq> Some ''imagenet''
     then
       (let tmp = training_mode;
            self = self\<lparr>training_mode := True\<rparr> in
        and_then (extern Build
                    (build env self (None # map Some (input_size config) @ [Some 3]))) (\<lambda>self.
        and_then (extern (LoadWeights (the save_dir @ ''/model.h5''))
                    (load_weights env self (the save_dir @ ''/model.h5'') custom_head_classifier)) (\<lambda>self.
        let self = self\<lparr>training_mode := tmp\<rparr>;
            self = self\<lparr>training_mode := tmp\<rparr> in
        if custom_head_classifier
        then and_then (extern (MakeClassHead num_classes)
                         (RetinaNetClassifier env (Wbifpn config) (Dclass config) num_classes ''class_head/'')) (\<lambda>class_head.
             return (self\<lparr>class_head := class_head\<rparr>))
        else return self)))
     else return self)))))))))))))"


text \<open>
  What \<^verbatim>\<open>call\<close> returns: the raw box offsets and class scores, or whatever the
  detection filter makes of them.
\<close>

datatype 'dets call_out =
    is_TrainingOut: TrainingOut tensor3 tensor3
  | InferenceOut 'dets

text \<open>
  \<^verbatim>\<open>tf.concat(values, axis=1)\<close> on tensors of shape \<^verbatim>\<open>[B, A, d]\<close>: the batch
  extents and the row widths must agree, and there must be a tensor to concatenate.
\<close>

definition tf_concat_axis1 :: "tensor3 list \<Rightarrow> error + tensor3" where
  "tf_concat_axis1 values =
     (case values of
        [] \<Rightarrow> Inl InvalidArgumentError
      | t # _ \<Rightarrow>
          if list_all (\<lambda>u. length u = length t) values
             \<and> (case concat (concat values) of
                   [] \<Rightarrow> True
                 | r # rs \<Rightarrow> list_all (\<lambda>r'. length r' = length r) rs)
          then Inr (map (\<lambda>b. concat (map (\<lambda>u. u ! b) values)) [0..<length t])
          else Inl InvalidArgumentError)"

text \<open>
  \<^verbatim>\<open>EfficientDet.call\<close>. \<^verbatim>\<open>FilterDetections.__call__\<close> is defined in another
  module; it is the parameter \<open>run_filter\<close>, which receives the filter object (and so
  its current \<^verbatim>\<open>score_threshold\<close>), the images and the two concatenated tensors.
\<close>

definition EfficientDet_call ::
  "('ac FilterDetections \<Rightarrow> 'img \<Rightarrow> tensor3 \<Rightarrow> tensor3 \<Rightarrow> 'dets)
     \<Rightarrow> ('img, 'fs, 'f, 'ac) EfficientDet \<Rightarrow> 'img \<Rightarrow> bool \<Rightarrow> error + 'dets call_out" where
  "EfficientDet_call run_filter self images training =
     (let training = (training \<and> training_mode self);
          features = backbone self images training;
          bifnp_features = neck self features training;
          bboxes = map (\<lambda>bf. bb_head self bf training) bifnp_features;
          class_scores = map (\<lambda>bf. class_head self bf training) bifnp_features
      in case tf_concat_axis1 bboxes of
           Inl e \<Rightarrow> Inl e
         | Inr bboxes \<Rightarrow>
             (case tf_concat_axis1 class_scores of
                Inl e \<Rightarrow> Inl e
              | Inr class_scores \<Rightarrow>
                  if training_mode self then Inr (TrainingOut bboxes class_scores)
                  else Inr (InferenceOut
                         (run_filter (filter_detections self) images bboxes class_scores))))"

text \<open>The property \<^verbatim>\<open>score_threshold\<close>: getter and setter.\<close>

definition EfficientDet_score_threshold :: "('img, 'fs, 'f, 'ac) EfficientDet \<Rightarrow> real" where
  "EfficientDet_score_threshold self = score_threshold (filter_detections self)"

definition EfficientDet_score_threshold_setter ::
  "('img, 'fs, 'f, 'ac) EfficientDet \<Rightarrow> real \<Rightarrow> ('img, 'fs, 'f, 'ac) EfficientDet" where
  "EfficientDet_score_threshold_setter self v =
     self\<lparr>filter_detections := (filter_detections self)\<lparr>score_threshold := v\<rparr>\<rparr>"

text \<open>Construction ended in an exception.\<close>

definition failed :: "'a action \<Rightarrow> bool" where
  "failed a \<longleftrightarrow> isl (snd a)"


section \<open>Concrete inputs\<close>

text \<open>
  A one-image model with two feature levels of one anchor each, a filter that keeps
  the boxes whose best score reaches the threshold, and collaborators that all succeed
  on a checkpoint with 20 classes.
\<close>

definition demo_model :: "(unit, unit, unit, unit) EfficientDet" where
  "demo_model =
     \<lparr>config = \<lparr>B = 0, Wbifpn = 64, Dbifpn = 3, Dclass = 3, input_size = [512, 512]\<rparr>,
      backbone = (\<lambda>_ _. ()), backbone_trainable = True, neck = (\<lambda>_ _. [(), ()]),
      num_classes = 1,
      class_head = (\<lambda>_ _. [[[9 / 10]]]), bb_head = (\<lambda>_ _. [[[0, 0, 1, 1]]]),
      training_mode = True,
      filter_detections = \<lparr>anchors_config = (), score_threshold = 1 / 10\<rparr>\<rparr>"

text \<open>
  A model whose layers record the \<^verbatim>\<open>training\<close> flag they are given: the backbone
  returns its flag, the neck returns the feature it got and its own flag as two
  levels, and the heads write feature and flag into their one anchor.
\<close>

definition flagged_model :: "(unit, bool, bool, unit) EfficientDet" where
  "flagged_model =
     \<lparr>config = \<lparr>B = 0, Wbifpn = 64, Dbifpn = 3, Dclass = 3, input_size = [512, 512]\<rparr>,
      backbone = (\<lambda>_ tr. tr), backbone_trainable = True, neck = (\<lambda>fs tr. [fs, tr]),
      num_classes = 1,
      class_head = (\<lambda>f tr. [[[if tr then 1 / 2 else 9 / 10]]]),
      bb_head = (\<lambda>f tr. [[[if f then 1 else 0, if tr then 1 else 0, 0, 0]]]),
      training_mode = True,
      filter_detections = \<lparr>anchors_config = (), score_threshold = 1 / 10\<rparr>\<rparr>"

definition demo_filter :: "unit FilterDetections \<Rightarrow> unit \<Rightarrow> tensor3 \<Rightarrow> tensor3 \<Rightarrow> tensor2" where
  "demo_filter fd images bboxes class_scores =
     map snd (filter (\<lambda>(s, b). score_threshold fd \<le> Max (set s))
       (zip (concat class_scores) (concat bboxes)))"

definition demo_env :: "(unit, unit, unit, unit) environment" where
  "demo_env =
     \<lparr>weights_is_literal = True,
      unavailable_message = (\<lambda>w. ''Weights '' @ w @ '' not available.''),
      from_scratch_message = ''Custom Head does not make sense when training the model from scratch.'',
      download_folder = (\<lambda>p. Inr ''/tmp/D0-VOC''),
      load_hp = (\<lambda>p. Inr [''n_classes'' \<mapsto> JNum 20, ''bidirectional'' \<mapsto> JBool True,
                            ''efficientdet'' \<mapsto> JNum 0]),
      EfficientDetCompudScaling = (\<lambda>d. Inr (config demo_model)),
      efficientnet_backbone = (\<lambda>b w. Inr (backbone demo_model)),
      BiFPN = (\<lambda>w d p. Inr (neck demo_model)),
      RetinaNetClassifier = (\<lambda>w d n p. Inr (class_head demo_model)),
      RetinaNetBBPredictor = (\<lambda>w d p. Inr (bb_head demo_model)),
      AnchorsConfig = Inr (),
      build = (\<lambda>m shape. Inr m),
      load_weights = (\<lambda>m path skip. Inr m)\<rparr>"

section \<open>Elementwise operations on tensors\<close>

lemma map2_map_map2:
  "map2 f (map g xs) (map2 h xs ys) = map2 (\<lambda>a b. f (g a) (h a b)) xs ys"
proof (induction xs arbitrary: ys)
  case Nil
  then show ?case by simp
next
  case (Cons x xs)
  then show ?case by (cases ys) simp_all
qed

lemma map2_map2_map2:
  "map2 f (map2 g xs ys) (map2 h xs ys) = map2 (\<lambda>a b. f (g a b) (h a b)) xs ys"
proof (induction xs arbitrary: ys)
  case Nil
  then show ?case by simp
next
  case (Cons x xs)
  then show ?case by (cases ys) simp_all
qed

lemma map2_map_map:
  "map2 f (map g xs) (map h ys) = map2 (\<lambda>a b. f (g a) (h b)) xs ys"
proof (induction xs arbitrary: ys)
  case Nil
  then show ?case by simp
next
  case (Cons x xs)
  then show ?case by (cases ys) simp_all
qed

lemma map_map2: "map f (map2 g xs ys) = map2 (\<lambda>a b. f (g a b)) xs ys"
  by (simp add: case_prod_beta)

lemma tmap_tmap: "tmap f (tmap g t) = tmap (\<lambda>a. f (g a)) t"
  by (simp add: tmap_def comp_def)

lemma tmap_tmap2: "tmap f (tmap2 g s t) = tmap2 (\<lambda>a b. f (g a b)) s t"
  by (simp add: tmap_def tmap2_def map_map2 case_prod_beta)

lemma tmap2_tmap_tmap:
  "tmap2 f (tmap g s) (tmap h t) = tmap2 (\<lambda>a b. f (g a) (h b)) s t"
  unfolding tmap_def tmap2_def map2_map_map by (simp add: map2_map_map)

lemma tmap2_tmap_tmap2:
  "tmap2 f (tmap g s) (tmap2 h s t) = tmap2 (\<lambda>a b. f (g a) (h a b)) s t"
  unfolding tmap_def tmap2_def map2_map_map2 by (simp add: map2_map_map2)

lemma tmap2_tmap2_tmap2:
  "tmap2 f (tmap2 g s t) (tmap2 h s t) = tmap2 (\<lambda>a b. f (g a b) (h a b)) s t"
  unfolding tmap2_def map2_map2_map2 by (simp add: map2_map2_map2)

lemma tmap2_tmap_right: "tmap2 f s (tmap h t) = tmap2 (\<lambda>a b. f a (h b)) s t"
  using tmap2_tmap_tmap [of f "\<lambda>a. a" s h t] by (simp add: tmap_def)

lemma tmap2_same: "tmap2 f s s = tmap (\<lambda>a. f a a) s"
  by (simp add: tmap2_def tmap_def zip_same_conv_map comp_def)

lemma tf_where_left:
  "tf_where (tmap P s) (tmap f s) (tmap g s) = tmap (\<lambda>a. if P a then f a else g a) s"
  by (simp add: tf_where_def tmap2_tmap_tmap tmap2_tmap_tmap2 tmap2_same)

lemma tf_where_both:
  "tf_where (tmap P s) (tmap f t) (tmap g t) = tmap2 (\<lambda>a b. if P a then f b else g b) s t"
  by (simp add: tf_where_def tmap2_tmap_tmap tmap2_same)

section \<open>The focal loss function\<close>

text \<open>
  The clipped probability lies strictly between 0 and 1, so the logarithm and the power
  of \<^verbatim>\<open>focal_loss\<close> are taken of positive numbers.
\<close>

lemma clip_by_value_bounds:
  "lo \<le> hi \<Longrightarrow> lo \<le> clip_by_value t lo hi \<and> clip_by_value t lo hi \<le> hi"
  by (simp add: clip_by_value_def)

lemma pt_in_unit_interval:
  fixes x :: real
  defines "p \<equiv> clip_by_value x (1 / 10 ^ 6) (1 - 1 / 10 ^ 6)"
  shows "0 < p \<and> p < 1 \<and> 0 < 1 - p \<and> 1 - p < 1"
  using clip_by_value_bounds [of "1 / 10 ^ 6" "1 - 1 / 10 ^ 6" x] by (simp add: p_def)

text \<open>
  The tensor that \<^verbatim>\<open>focal_loss\<close> builds with \<^verbatim>\<open>tf.where\<close>, \<^verbatim>\<open>tf.pow\<close> and
  \<^verbatim>\<open>tf.math.log\<close> holds, entry by entry, the focal term of the specification.
\<close>

lemma focal_loss_tensor:
  "tmap2 (*) (tmap2 (*) (tmap uminus
       (tf_where (tmap (\<lambda>y. y = 1) y_true) (tmap (\<lambda>y. 1 * alpha) y_true)
          (tmap (\<lambda>a. 1 - a) (tmap (\<lambda>y. 1 * alpha) y_true))))
     (tmap (\<lambda>q. tf_pow (1 - q) gamma)
        (tf_where (tmap (\<lambda>y. y = 1) y_true) (tmap c y_pred) (tmap (\<lambda>p. 1 - p) (tmap c y_pred)))))
     (tmap tf_log
        (tf_where (tmap (\<lambda>y. y = 1) y_true) (tmap c y_pred) (tmap (\<lambda>p. 1 - p) (tmap c y_pred))))
   = tmap2 (\<lambda>y p. - (if y = 1 then alpha else 1 - alpha)
                   * (1 - (if y = 1 then c p else 1 - c p)) powr gamma
                   * ln (if y = 1 then c p else 1 - c p)) y_true y_pred"
  by (simp add: tmap_tmap tf_where_left tf_where_both tmap_tmap2 tmap2_tmap_tmap2
      tmap2_tmap2_tmap2 tf_pow_def tf_log_def if_distrib cong: if_cong)

lemma focal_term_spec_eq:
  "focal_term_spec gamma alpha fl y p =
     (let c = clip_by_value (if fl then tf_sigmoid p else p) (1 / 10 ^ 6) (1 - 1 / 10 ^ 6)
      in - (if y = 1 then alpha else 1 - alpha)
         * (1 - (if y = 1 then c else 1 - c)) powr gamma
         * ln (if y = 1 then c else 1 - c))"
  by (simp add: focal_term_spec_def clip_by_value_def tf_sigmoid_def Let_def max.commute)

lemma focal_loss_unfold:
  "focal_loss y_true y_pred gamma alpha fl reduction =
     (let loss = tmap2 (focal_term_spec gamma alpha fl) y_true y_pred
      in if reduction = ''mean'' then Scalar (reduce_mean (concat loss))
         else if reduction = ''sum'' then Scalar (Some (reduce_sum (concat loss)))
         else Unreduced loss)"
proof -
  define yp where "yp = (if fl then tmap tf_sigmoid y_pred else y_pred)"
  define c where "c = (\<lambda>p. clip_by_value p (1 / 10 ^ 6) (1 - 1 / 10 ^ 6))"
  have "tmap2 (\<lambda>y p. - (if y = 1 then alpha else 1 - alpha)
                   * (1 - (if y = 1 then c p else 1 - c p)) powr gamma
                   * ln (if y = 1 then c p else 1 - c p)) y_true yp
        = tmap2 (focal_term_spec gamma alpha fl) y_true y_pred"
  proof -
    have "focal_term_spec gamma alpha True =
        (\<lambda>y p. - (if y = 1 then alpha else 1 - alpha)
            * (1 - (if y = 1 then c (tf_sigmoid p) else 1 - c (tf_sigmoid p))) powr gamma
            * ln (if y = 1 then c (tf_sigmoid p) else 1 - c (tf_sigmoid p)))"
      and "focal_term_spec gamma alpha False =
        (\<lambda>y p. - (if y = 1 then alpha else 1 - alpha)
            * (1 - (if y = 1 then c p else 1 - c p)) powr gamma
            * ln (if y = 1 then c p else 1 - c p))"
      by (intro ext, simp add: focal_term_spec_eq Let_def c_def)+
    then show ?thesis
      by (cases fl) (simp_all add: yp_def tmap2_tmap_right)
  qed
  then have "tmap2 (\<lambda>y p. - (if y = 1 then alpha else 1 - alpha)
                   * (1 - (if y = 1 then clip_by_value p (1 / 10 ^ 6) (1 - 1 / 10 ^ 6)
                           else 1 - clip_by_value p (1 / 10 ^ 6) (1 - 1 / 10 ^ 6))) powr gamma
                   * ln (if y = 1 then clip_by_value p (1 / 10 ^ 6) (1 - 1 / 10 ^ 6)
                         else 1 - clip_by_value p (1 / 10 ^ 6) (1 - 1 / 10 ^ 6))) y_true yp
        = tmap2 (focal_term_spec gamma alpha fl) y_true y_pred"
    unfolding c_def .
  then show ?thesis
    unfolding focal_loss_def Let_def yp_def [symmetric] focal_loss_tensor
    by simp
qed

text \<open>
  Claim C1. For every target label and predicted score (the claim takes labels in
  \<open>{0, 1}\<close>; the code treats every label other than 1 as 0), the focal loss of one anchor
  and one class is \<open>- \<alpha>\<^sub>t (1 - p\<^sub>t)\<^sup>\<gamma> log p\<^sub>t\<close>, where the score goes through the sigmoid
  when \<^verbatim>\<open>from_logits\<close> is true and is then clipped into \<open>[10\<^sup>-\<^sup>6, 1 - 10\<^sup>-\<^sup>6]\<close>,
  \<open>p\<^sub>t\<close> is the clipped score for label 1 and one minus it otherwise, \<open>\<alpha>\<^sub>t\<close> is
  \<open>\<alpha>\<close> for label 1 and \<open>1 - \<alpha>\<close> otherwise: the unreduced result of \<^verbatim>\<open>focal_loss\<close>
  is the tensor of these terms, the \<^verbatim>\<open>'sum'\<close> reduction their sum and the
  \<^verbatim>\<open>'mean'\<close> reduction their mean. The defaults are \<open>\<gamma> = 1.5\<close>, \<open>\<alpha> = 0.25\<close>.
\<close>

theorem focal_loss_per_anchor_per_class:
  assumes "same_shape y_true y_pred"
  shows "focal_loss y_true y_pred gamma alpha from_logits reduction =
           (if reduction = ''mean''
            then Scalar (reduce_mean (concat (tmap2 (focal_term_spec gamma alpha from_logits) y_true y_pred)))
            else if reduction = ''sum''
            then Scalar (Some (sum_list (concat (tmap2 (focal_term_spec gamma alpha from_logits) y_true y_pred))))
            else Unreduced (tmap2 (focal_term_spec gamma alpha from_logits) y_true y_pred))
         \<and> focal_loss_default y_true y_pred =
             Scalar (Some (sum_list (concat (tmap2 (focal_term_spec (3 / 2) (1 / 4) False) y_true y_pred))))"
  by (simp add: focal_loss_default_def focal_loss_unfold Let_def reduce_sum_def)

text \<open>
  The theorem at the labels \<open>[1, 0]\<close> and the probabilities \<open>[0.9, 0.1]\<close> of one anchor.
\<close>

theorem focal_loss_per_anchor_per_class_witness:
  "same_shape [[1, 0 :: real]] [[9 / 10, 1 / 10 :: real]]
   \<and> focal_loss [[1, 0]] [[9 / 10, 1 / 10]] (3 / 2) (1 / 4) False ''none'' =
       Unreduced [[focal_term_spec (3 / 2) (1 / 4) False 1 (9 / 10),
                   focal_term_spec (3 / 2) (1 / 4) False 0 (1 / 10)]]"
proof -
  have h: "same_shape [[1, 0 :: real]] [[9 / 10, 1 / 10 :: real]]"
    by (simp add: same_shape_def)
  show ?thesis
    using h focal_loss_per_anchor_per_class [OF h, of "3 / 2" "1 / 4" False "''none''"]
    by (simp add: tmap2_def)
qed

text \<open>
  Claim C4, as the code has it. With \<^verbatim>\<open>from_logits=True\<close> the function applies the
  sigmoid itself: \<^verbatim>\<open>focal_loss(y, x, \<gamma>, \<alpha>, from_logits=True)\<close> equals
  \<^verbatim>\<open>focal_loss(y, sigmoid(x), \<gamma>, \<alpha>, from_logits=False)\<close>, for every \<open>x\<close>, every
  label tensor and every reduction.
\<close>

theorem focal_loss_from_logits_eq_sigmoid:
  "focal_loss y x gamma alpha True reduction
   = focal_loss y (tmap tf_sigmoid x) gamma alpha False reduction"
  by (simp add: focal_loss_def)

text \<open>
  The focal term with the default parameters decreases strictly in the probability of
  the true class, and \<open>sigmoid (1/2)\<close> lies between \<open>1/2\<close> and the upper clipping bound.
\<close>

lemma sigmoid_half_bounds:
  "1 / 2 < tf_sigmoid (1 / 2)" "tf_sigmoid (1 / 2) \<le> 1 - 1 / 10 ^ 6"
proof -
  define e :: real where "e = exp (- (1 / 2))"
  have e_lt: "e < 1" unfolding e_def by simp
  have e_ge: "1 / 2 \<le> e"
    unfolding e_def using exp_ge_add_one_self [of "- (1 / 2) :: real"] by simp
  have e_pos: "0 < e" unfolding e_def by simp
  have s: "tf_sigmoid (1 / 2) = 1 / (1 + e)" by (simp add: tf_sigmoid_def e_def)
  show "1 / 2 < tf_sigmoid (1 / 2)"
    unfolding s using e_lt e_pos by (simp add: field_simps)
  show "tf_sigmoid (1 / 2) \<le> 1 - 1 / 10 ^ 6"
    unfolding s using e_ge e_pos by (simp add: field_simps)
qed

lemma focal_term_decreasing:
  fixes a b :: real
  assumes "0 < a" "a < b" "b < 1"
  shows "- (1 / 4) * (1 - b) powr (3 / 2) * ln b < - (1 / 4) * (1 - a) powr (3 / 2) * ln a"
proof -
  have p: "(1 - b) powr (3 / 2) < (1 - a) powr (3 / 2)"
    using assms by (intro powr_less_mono2) simp_all
  have p0: "0 \<le> (1 - b) powr (3 / 2)" by simp
  have l: "- ln b < - ln a" using assms by simp
  have l0: "0 < - ln a" using assms by simp
  have l1: "0 \<le> - ln b" using assms by simp
  have "(1 - b) powr (3 / 2) * (- ln b) < (1 - a) powr (3 / 2) * (- ln a)"
  proof -
    have "(1 - b) powr (3 / 2) * (- ln b) \<le> (1 - b) powr (3 / 2) * (- ln a)"
      using l p0 by (intro mult_left_mono) simp_all
    also have "\<dots> < (1 - a) powr (3 / 2) * (- ln a)"
      using p l0 by (intro mult_strict_right_mono) simp_all
    finally show ?thesis .
  qed
  then show ?thesis by simp
qed

text \<open>
  Claim C4, as stated, fails. It says that \<^verbatim>\<open>focal_loss(y, sigmoid(x), \<gamma>, \<alpha>,
  from_logits=True)\<close> equals \<^verbatim>\<open>focal_loss(y, sigmoid(x), \<gamma>, \<alpha>, from_logits=False)\<close>.
  At \<open>x = 0\<close>, label 1 and the default parameters the first applies the sigmoid a
  second time, to \<open>sigmoid 0 = 1/2\<close>, and the two losses differ.
\<close>

theorem focal_loss_from_logits_flag_counterexample:
  "focal_loss [[1]] [[tf_sigmoid 0]] (3 / 2) (1 / 4) True ''sum''
   \<noteq> focal_loss [[1]] [[tf_sigmoid 0]] (3 / 2) (1 / 4) False ''sum''"
proof -
  define b where "b = tf_sigmoid (1 / 2)"
  have s0: "tf_sigmoid 0 = 1 / 2" by (simp add: tf_sigmoid_def)
  have b1: "1 / 2 < b" and b2: "b \<le> 1 - 1 / 10 ^ 6"
    unfolding b_def by (rule sigmoid_half_bounds)+
  have clip_b: "max (1 / 10 ^ 6) (min b (1 - 1 / 10 ^ 6)) = b"
    using b1 b2 by simp
  have lhs: "focal_term_spec (3 / 2) (1 / 4) True 1 (1 / 2) = - (1 / 4) * (1 - b) powr (3 / 2) * ln b"
    using clip_b by (simp add: focal_term_spec_def Let_def b_def tf_sigmoid_def)
  have rhs: "focal_term_spec (3 / 2) (1 / 4) False 1 (1 / 2)
             = - (1 / 4) * (1 - 1 / 2) powr (3 / 2) * ln (1 / 2)"
    by (simp add: focal_term_spec_def Let_def)
  have "focal_term_spec (3 / 2) (1 / 4) True 1 (1 / 2) < focal_term_spec (3 / 2) (1 / 4) False 1 (1 / 2)"
    unfolding lhs rhs using b1 b2 by (intro focal_term_decreasing) simp_all
  then show ?thesis
    by (simp add: focal_loss_unfold Let_def s0 tmap2_def reduce_sum_def)
qed

section \<open>The Huber loss function\<close>

lemma huber_loss_tensor:
  "tf_where (tmap (\<lambda>e. \<bar>e\<bar> < delta) (tmap2 (-) y_true y_pred))
     (tmap (\<lambda>e. 0.5 * (e * e)) (tmap2 (-) y_true y_pred))
     (tmap (\<lambda>e. delta * (\<bar>e\<bar> - 0.5 * delta)) (tmap2 (-) y_true y_pred))
   = tmap2 (\<lambda>t p. huber_term_spec delta (t - p)) y_true y_pred"
proof -
  have "huber_term_spec delta = (\<lambda>e. if \<bar>e\<bar> < delta then 0.5 * (e * e) else delta * (\<bar>e\<bar> - 0.5 * delta))"
    by (intro ext) (simp add: huber_term_spec_def power2_eq_square)
  then show ?thesis
    unfolding tf_where_left by (simp add: tmap_tmap2)
qed

lemma reduce_sum_opt_map2_Some:
  "reduce_sum_opt (map2 (\<lambda>t p. Some (f t p)) xs ys) = Some (sum_list (map2 f xs ys))"
proof (induction xs arbitrary: ys)
  case Nil
  then show ?case by simp
next
  case (Cons x xs)
  then show ?case by (cases ys) simp_all
qed

lemma huber_rows_mean:
  assumes "same_shape y_true y_pred" and "\<forall>row \<in> set y_true. length row = 4"
  shows "map reduce_mean (tmap2 f y_true y_pred)
         = map (\<lambda>(t, p). Some (sum_list (map2 f t p) / 4)) (zip y_true y_pred)"
proof -
  have "reduce_mean (map2 f t p) = Some (sum_list (map2 f t p) / 4)"
    if "(t, p) \<in> set (zip y_true y_pred)" for t p
  proof -
    from that have "\<exists>n. y_true ! n = t \<and> y_pred ! n = p \<and> n < length y_true \<and> n < length y_pred"
      by (simp add: in_set_zip)
    then obtain i where i: "i < length y_true" "i < length y_pred" "t = y_true ! i" "p = y_pred ! i"
      by blast
    have "length t = 4" using assms(2) i by simp
    moreover have "length p = length t"
    proof -
      have "map length y_true ! i = map length y_pred ! i"
        using assms(1) by (simp add: same_shape_def)
      then show ?thesis using i by simp
    qed
    ultimately have "length (map2 f t p) = 4" by simp
    then show ?thesis by (auto simp: reduce_mean_def)
  qed
  then show ?thesis by (auto simp: tmap2_def)
qed

lemma huber_branches_agree:
  fixes e delta :: real
  assumes "\<bar>e\<bar> = delta"
  shows "0.5 * e\<^sup>2 = delta * (\<bar>e\<bar> - 0.5 * delta)"
proof -
  have "e\<^sup>2 = delta\<^sup>2" using assms by (metis power2_abs)
  then show ?thesis using assms by (simp add: power2_eq_square algebra_simps)
qed

lemma huber_term_continuous: "continuous_on UNIV (huber_term_spec delta)"
proof -
  let ?s = "{e :: real. \<bar>e\<bar> \<le> delta}" and ?t = "{e :: real. delta \<le> \<bar>e\<bar>}"
  have "continuous_on (?s \<union> ?t)
          (\<lambda>e. if \<bar>e\<bar> < delta then 0.5 * e\<^sup>2 else delta * (\<bar>e\<bar> - 0.5 * delta))"
  proof (rule continuous_on_If)
    show "closed ?s" by (intro closed_Collect_le continuous_intros)
    show "closed ?t" by (intro closed_Collect_le continuous_intros)
    show "continuous_on ?s (\<lambda>e. 0.5 * e\<^sup>2)" by (intro continuous_intros)
    show "continuous_on ?t (\<lambda>e. delta * (\<bar>e\<bar> - 0.5 * delta))" by (intro continuous_intros)
    show "0.5 * e\<^sup>2 = delta * (\<bar>e\<bar> - 0.5 * delta)" if "e \<in> ?s" "\<not> \<bar>e\<bar> < delta" for e
      using that by (intro huber_branches_agree) simp
    show "0.5 * e\<^sup>2 = delta * (\<bar>e\<bar> - 0.5 * delta)" if "e \<in> ?t" "\<bar>e\<bar> < delta" for e
      using that by simp
  qed
  moreover have "?s \<union> ?t = UNIV" by auto
  moreover have "huber_term_spec delta =
      (\<lambda>e. if \<bar>e\<bar> < delta then 0.5 * e\<^sup>2 else delta * (\<bar>e\<bar> - 0.5 * delta))"
    by (intro ext) (simp add: huber_term_spec_def)
  ultimately show ?thesis by simp
qed

text \<open>
  Claim C5. With \<open>e\<close> the target minus the prediction of one coordinate, the Huber
  term is \<open>0.5 e\<^sup>2\<close> when \<open>\<bar>e\<bar> < \<delta>\<close> and \<open>\<delta> (\<bar>e\<bar> - 0.5 \<delta>)\<close> otherwise, with
  default \<open>\<delta> = 1\<close>; the two branches agree where \<open>\<bar>e\<bar> = \<delta>\<close> and the term is
  continuous; on anchors of four coordinates \<^verbatim>\<open>huber_loss\<close> averages the terms of each
  anchor and, with the default reduction, sums the averages over the anchors.
\<close>

theorem huber_loss_per_coordinate:
  assumes "same_shape y_true y_pred" and "\<forall>row \<in> set y_true. length row = 4"
  shows "huber_loss y_true y_pred delta ''sum'' =
           Scalar (Some (\<Sum>(t, p) \<leftarrow> zip y_true y_pred.
                           (\<Sum>(a, b) \<leftarrow> zip t p. huber_term_spec delta (a - b)) / 4))
         \<and> huber_loss_default y_true y_pred = huber_loss y_true y_pred 1 ''sum''
         \<and> (\<forall>e. \<bar>e\<bar> = delta \<longrightarrow> 0.5 * e\<^sup>2 = delta * (\<bar>e\<bar> - 0.5 * delta))
         \<and> continuous_on UNIV (huber_term_spec delta)"
proof -
  have "huber_loss y_true y_pred delta ''sum'' =
          Scalar (Some (\<Sum>(t, p) \<leftarrow> zip y_true y_pred.
                          (\<Sum>(a, b) \<leftarrow> zip t p. huber_term_spec delta (a - b)) / 4))"
    unfolding huber_loss_def Let_def huber_loss_tensor huber_rows_mean [OF assms]
    by (simp add: reduce_sum_opt_map2_Some)
  moreover have "0.5 * e\<^sup>2 = delta * (\<bar>e\<bar> - 0.5 * delta)" if "\<bar>e\<bar> = delta" for e
    using that by (rule huber_branches_agree)
  moreover have "continuous_on UNIV (huber_term_spec delta)"
    by (rule huber_term_continuous)
  ultimately show ?thesis by (simp add: huber_loss_default_def)
qed

text \<open>
  The theorem at the target \<open>[0.1, 0.1, 0.2, 0.2]\<close> and the prediction \<open>[0, 0, 0, 0]\<close>:
  the mean of \<open>0.5 e\<^sup>2\<close> over the four coordinates is \<open>1/80\<close>.
\<close>

theorem huber_loss_per_coordinate_witness:
  "same_shape [[1 / 10, 1 / 10, 2 / 10, 2 / 10 :: real]] [[0, 0, 0, 0 :: real]]
   \<and> list_all (\<lambda>row. length row = 4) [[1 / 10, 1 / 10, 2 / 10, 2 / 10 :: real]]
   \<and> huber_loss [[1 / 10, 1 / 10, 2 / 10, 2 / 10]] [[0, 0, 0, 0]] 1 ''sum'' = Scalar (Some (1 / 80))"
proof -
  have h1: "same_shape [[1 / 10, 1 / 10, 2 / 10, 2 / 10 :: real]] [[0, 0, 0, 0 :: real]]"
    by (simp add: same_shape_def)
  have h2: "\<forall>row \<in> set [[1 / 10, 1 / 10, 2 / 10, 2 / 10 :: real]]. length row = 4"
    by simp
  show ?thesis
    using h1 h2 huber_loss_per_coordinate [OF h1 h2, of 1]
    by (simp add: huber_term_spec_def power2_eq_square)
qed

section \<open>The loss classes\<close>

text \<open>
  Gathering with the indices that \<^verbatim>\<open>tf.where\<close> returns for a mask selects, in order,
  the rows whose mask entry is true; the number of indices is the number of true
  entries.
\<close>

lemma nth_filter_upt:
  "length c = length r \<Longrightarrow>
   map (\<lambda>a. r ! a) (filter (\<lambda>a. c ! a) [0..<length c]) = map snd (filter fst (zip c r))"
proof (induction c r rule: list_induct2)
  case Nil
  then show ?case by simp
next
  case (Cons x xs y ys)
  have "[0..<length (x # xs)] = 0 # map Suc [0..<length xs]"
    by (simp add: upt_conv_Cons map_Suc_upt del: upt_Suc)
  then show ?case using Cons.IH by (simp add: filter_map comp_def del: upt_Suc)
qed

lemma where_from_gather:
  assumes "same_shape c t" and "length pre = k"
  shows "map (\<lambda>(b, a). (pre @ t) ! b ! a) (where_from k c)
         = map snd (filter fst (zip (concat c) (concat t)))"
  using assms
proof (induction c arbitrary: t k pre)
  case Nil
  then show ?case by (simp add: same_shape_def)
next
  case (Cons row rows)
  then obtain r rs where t: "t = r # rs" and len: "length row = length r" and sh: "same_shape rows rs"
    by (cases t) (auto simp: same_shape_def)
  have "map (\<lambda>(b, a). ((pre @ [r]) @ rs) ! b ! a) (where_from (Suc k) rows)
        = map snd (filter fst (zip (concat rows) (concat rs)))"
    using Cons.prems(2) by (intro Cons.IH [OF sh]) simp
  moreover have "map (\<lambda>a. (pre @ r # rs) ! k ! a) (filter (\<lambda>a. row ! a) [0..<length row])
        = map snd (filter fst (zip row r))"
  proof -
    have "(pre @ r # rs) ! k = r" using Cons.prems(2) by auto
    then show ?thesis using nth_filter_upt [OF len] by simp
  qed
  ultimately show ?case
    using len by (simp add: t comp_def)
qed

lemma where_from_in_range:
  assumes "same_shape c t" and "length pre = k"
  shows "list_all (\<lambda>(b, a). b < length (pre @ t) \<and> a < length ((pre @ t) ! b)) (where_from k c)"
  using assms
proof (induction c arbitrary: t k pre)
  case Nil
  then show ?case by simp
next
  case (Cons row rows)
  then obtain r rs where t: "t = r # rs" and len: "length row = length r" and sh: "same_shape rows rs"
    by (cases t) (auto simp: same_shape_def)
  have "list_all (\<lambda>(b, a). b < length ((pre @ [r]) @ rs) \<and> a < length (((pre @ [r]) @ rs) ! b))
          (where_from (Suc k) rows)"
    using Cons.prems(2) by (intro Cons.IH [OF sh]) simp
  moreover have "(pre @ r # rs) ! k = r" using Cons.prems(2) by auto
  ultimately show ?case
    using len Cons.prems(2) by (auto simp: t list_all_iff)
qed

lemma length_where_from: "length (where_from k c) = length (filter (\<lambda>b. b) (concat c))"
proof (induction c arbitrary: k)
  case Nil
  then show ?case by simp
next
  case (Cons row rows)
  have "length (map (\<lambda>a. row ! a) (filter (\<lambda>a. row ! a) [0..<length row]))
        = length (map snd (filter fst (zip row row)))"
    using nth_filter_upt [of row row] by simp
  also have "\<dots> = length (filter (\<lambda>b. b) row)"
    by (simp add: zip_same_conv_map filter_map comp_def)
  finally show ?case using Cons.IH by simp
qed

lemma where_from_Nil_iff: "where_from k c = [] \<longleftrightarrow> filter (\<lambda>b. b) (concat c) = []"
  using length_where_from [of k c] by (metis length_0_conv)

lemma gather_nd_where:
  assumes "same_shape c t" and "filter (\<lambda>b. b) (concat c) = [] \<or> concat (concat t) \<noteq> []"
  shows "gather_nd t (tf_where_idx c) = Inr (map snd (filter fst (zip (concat c) (concat t))))"
proof -
  have "\<not> (tf_where_idx c \<noteq> [] \<and> concat (concat t) = [])"
    using assms(2) by (auto simp: tf_where_idx_def where_from_Nil_iff)
  then show ?thesis
    using where_from_in_range [OF assms(1), of "[]" 0] where_from_gather [OF assms(1), of "[]" 0]
    by (simp add: gather_nd_def tf_where_idx_def)
qed

lemma concat_tmap: "concat (tmap f t) = map f (concat t)"
  by (simp add: tmap_def map_concat)

lemma same_shape_tmap: "same_shape (tmap f s) t \<longleftrightarrow> same_shape s t"
  by (simp add: same_shape_def tmap_def comp_def)

lemma same_shape_tmap_right: "same_shape s (tmap f t) \<longleftrightarrow> same_shape s t"
  by (simp add: same_shape_def tmap_def comp_def)

lemma same_shape_refl: "same_shape s s"
  by (simp add: same_shape_def)

lemma same_shape_length_concat: "same_shape s t \<Longrightarrow> length (concat s) = length (concat t)"
  by (simp add: same_shape_def length_concat)

lemma select_labels:
  "map snd (filter fst (zip (map Q ts) (map g ts))) = map g (filter Q ts)"
  by (induction ts) simp_all

lemma select_pred:
  "length ts = length ps \<Longrightarrow>
   map snd (filter fst (zip (map Q ts) ps)) = map snd (filter (\<lambda>(t, p). Q t) (zip ts ps))"
  by (induction ts ps rule: list_induct2) simp_all

lemma select_both:
  "length ts = length ps \<Longrightarrow>
   map2 f (map g (filter Q ts)) (map snd (filter (\<lambda>(t, p). Q t) (zip ts ps)))
   = map (\<lambda>(t, p). f (g t) p) (filter (\<lambda>(t, p). Q t) (zip ts ps))"
  by (induction ts ps rule: list_induct2) simp_all

lemma filter_id_map_Nil: "filter (\<lambda>b. b) (map f xs) = [] \<longleftrightarrow> filter f xs = []"
  by (simp add: filter_map comp_def)

lemma gathered_labels:
  assumes "filter (\<lambda>t. P (last t)) (concat y_true) = [] \<or> concat (map butlast (concat y_true)) \<noteq> []"
  shows "gather_nd (slice_butlast y_true) (tf_where_idx (tmap (\<lambda>s. P s) (tmap last y_true)))
         = Inr (map butlast (filter (\<lambda>t. P (last t)) (concat y_true)))"
proof -
  have shape: "same_shape (tmap P (tmap last y_true)) (slice_butlast y_true)"
    by (simp add: slice_butlast_def same_shape_tmap same_shape_tmap_right same_shape_refl)
  have "filter (\<lambda>b. b) (concat (tmap P (tmap last y_true))) = []
        \<or> concat (concat (slice_butlast y_true)) \<noteq> []"
    using assms by (simp add: slice_butlast_def concat_tmap filter_id_map_Nil comp_def)
  from gather_nd_where [OF shape this] show ?thesis
    by (simp add: slice_butlast_def concat_tmap select_labels comp_def)
qed

lemma gathered_pred:
  assumes "same_shape y_true y_pred"
    and "filter (\<lambda>t. P (last t)) (concat y_true) = [] \<or> concat (concat y_pred) \<noteq> []"
  shows "gather_nd y_pred (tf_where_idx (tmap (\<lambda>s. P s) (tmap last y_true)))
         = Inr (map snd (filter (\<lambda>(t, p). P (last t)) (anchor_rows y_true y_pred)))"
proof -
  have shape: "same_shape (tmap P (tmap last y_true)) y_pred"
    using assms(1) by (simp add: same_shape_tmap)
  have "filter (\<lambda>b. b) (concat (tmap P (tmap last y_true))) = [] \<or> concat (concat y_pred) \<noteq> []"
    using assms(2) by (simp add: concat_tmap filter_id_map_Nil comp_def)
  from gather_nd_where [OF shape this] show ?thesis
    using same_shape_length_concat [OF assms(1)]
    by (simp add: concat_tmap select_pred anchor_rows_def comp_def)
qed

lemma length_true_idx:
  "length (tf_where_idx (tmap (\<lambda>s. s = 1) (tmap last y_true))) = count_positive y_true"
  by (simp add: tf_where_idx_def length_where_from concat_tmap filter_map comp_def count_positive_def)

lemma tf_divide_nonzero: "y \<noteq> 0 \<Longrightarrow> tf_divide x y = map_option (\<lambda>l. l / y) x"
  by (cases x) (simp_all add: tf_divide_def)

text \<open>
  \<^verbatim>\<open>EfficientDetFocalLoss.call\<close> in closed form, for target and prediction tensors with
  the same anchors (\<open>same_shape\<close> compares the batch and anchor extents), target rows
  that hold at least the anchor state and, unless every anchor is ignored, a label and
  a prediction tensor that are not empty.
\<close>

lemma focal_call_eq:
  assumes "same_shape y_true y_pred" and "[] \<notin> set (concat y_true)"
    and "filter (\<lambda>t. last t \<noteq> - 1) (concat y_true) = []
         \<or> (concat (map butlast (concat y_true)) \<noteq> [] \<and> concat (concat y_pred) \<noteq> [])"
  shows "EfficientDetFocalLoss_call per_sample y_true y_pred =
           Inr (map_option (\<lambda>l. l / max 1 (real (count_positive y_true)))
                  (reduce_sum_opt (map (\<lambda>(t, p). per_sample (butlast t) p)
                                    (filter (\<lambda>(t, p). last t \<noteq> - 1) (anchor_rows y_true y_pred)))))"
proof -
  have labels: "gather_nd (slice_butlast y_true)
                  (tf_where_idx (tmap (\<lambda>s. s \<noteq> - 1) (tmap last y_true)))
                = Inr (map butlast (filter (\<lambda>t. last t \<noteq> - 1) (concat y_true)))"
    using assms(3) by (intro gathered_labels) blast
  have preds: "gather_nd y_pred (tf_where_idx (tmap (\<lambda>s. s \<noteq> - 1) (tmap last y_true)))
               = Inr (map snd (filter (\<lambda>(t, p). last t \<noteq> - 1) (anchor_rows y_true y_pred)))"
    using assms(3) by (intro gathered_pred [OF assms(1)]) blast
  have floor: "max 1 (real (count_positive y_true)) \<noteq> 0"
    by simp
  show ?thesis
    using assms(2) same_shape_length_concat [OF assms(1)]
    by (simp add: EfficientDetFocalLoss_call_def slice_last_def Let_def labels preds
        length_true_idx loss_fn_def select_both anchor_rows_def tf_divide_nonzero [OF floor])
qed

text \<open>
  Target rows that hold nothing but the anchor state leave an empty label tensor, and
  gathering a row of it is an error.
\<close>

lemma focal_call_state_only_rows:
  "EfficientDetFocalLoss_call per_sample [[[1], [0], [- 1]]] [[[1 / 2], [1 / 2], [1 / 2]]]
   = Inl InvalidArgumentError"
  by (simp add: EfficientDetFocalLoss_call_def slice_last_def slice_butlast_def tmap_def
      tf_where_idx_def gather_nd_def Let_def)

text \<open>
  When every anchor is ignored nothing is gathered: the sum is empty and the normalizer
  is \<open>max 1 0 = 1\<close>.
\<close>

lemma focal_call_all_ignored:
  assumes "same_shape y_true y_pred"
    and "\<forall>t \<in> set (concat y_true). t \<noteq> [] \<and> last t = - 1"
  shows "EfficientDetFocalLoss_call per_sample y_true y_pred = Inr (Some 0)"
proof -
  have nonempty: "[] \<notin> set (concat y_true)"
    using assms(2) by blast
  have state: "last t = - 1" if "t \<in> set (concat y_true)" for t
    using assms(2) that by blast
  have none: "filter (\<lambda>t. last t \<noteq> - 1) (concat y_true) = []"
    using state by (simp add: filter_empty_conv del: set_concat)
  have row_state: "last (fst x) = - 1" if "x \<in> set (anchor_rows y_true y_pred)" for x
  proof -
    have "(fst x, snd x) \<in> set (zip (concat y_true) (concat y_pred))"
      using that by (simp add: anchor_rows_def)
    then have "fst x \<in> set (concat y_true)" by (rule set_zip_leftD)
    then show ?thesis by (rule state)
  qed
  have none_kept: "filter (\<lambda>(t, p). last t \<noteq> - 1) (anchor_rows y_true y_pred) = []"
    using row_state by (simp add: filter_empty_conv case_prod_beta)
  have "filter (\<lambda>t. last t = 1) (concat y_true) = []"
    using state by (simp add: filter_empty_conv del: set_concat)
  then have no_pos: "count_positive y_true = 0"
    by (simp add: count_positive_def)
  from none have "filter (\<lambda>t. last t \<noteq> - 1) (concat y_true) = []
         \<or> (concat (map butlast (concat y_true)) \<noteq> [] \<and> concat (concat y_pred) \<noteq> [])"
    by blast
  from focal_call_eq [OF assms(1) nonempty this] show ?thesis
    by (simp add: none_kept no_pos)
qed

text \<open>
  The two constructors: the one of the focal loss reaches the initialiser of the base
  class, the one of the Huber loss looks up a name that the base class does not have.
\<close>

lemma focal_loss_object_built:
  "EfficientDetFocalLoss_init alpha gamma = Inr (FocalLoss_object alpha gamma)"
  by (simp add: EfficientDetFocalLoss_init_def super_call_def mangle_def)

lemma huber_loss_object_not_built:
  "EfficientDetHuberLoss_init delta = Inl (AttributeError ''_EfficientDetHuberLoss__init'')"
  by (simp add: EfficientDetHuberLoss_init_def super_call_def mangle_def)

text \<open>
  Claim C3. In \<^verbatim>\<open>EfficientDetFocalLoss.call\<close> exactly the anchors with state \<open>-1\<close> are
  left out: the library loss is summed over the anchors whose state differs from
  \<open>-1\<close>, those with state 0 and those with state 1 alike, and the sum is divided by
  \<open>max 1 n\<close> where \<open>n\<close> is the number of anchors with state 1. The inputs are target
  rows of at least one label and the state, and prediction rows that are not empty,
  over the same anchors.
\<close>

theorem focal_call_excludes_only_ignored:
  assumes "same_shape y_true y_pred"
    and "\<forall>t \<in> set (concat y_true). 2 \<le> length t"
    and "[] \<notin> set (concat y_pred)"
  shows "EfficientDetFocalLoss_call per_sample y_true y_pred =
           Inr (map_option (\<lambda>l. l / max 1 (real (count_positive y_true)))
                  (reduce_sum_opt (map (\<lambda>(t, p). per_sample (butlast t) p)
                                    (filter (\<lambda>(t, p). last t \<noteq> - 1) (anchor_rows y_true y_pred)))))"
proof -
  have nonempty: "[] \<notin> set (concat y_true)"
    using assms(2) by fastforce
  have "filter (\<lambda>t. last t \<noteq> - 1) (concat y_true) = []
         \<or> (concat (map butlast (concat y_true)) \<noteq> [] \<and> concat (concat y_pred) \<noteq> [])"
  proof (cases "concat y_true")
    case Nil
    then have "filter (\<lambda>t. last t \<noteq> - 1) (concat y_true) = []"
      by (simp only: filter.simps)
    then show ?thesis by blast
  next
    case (Cons t ts)
    then have "t \<in> set (concat y_true)" by simp
    with assms(2) have "2 \<le> length t" by blast
    then have "butlast t \<noteq> []" by (cases t) (auto simp: Suc_le_eq)
    with Cons have labels: "concat (map butlast (concat y_true)) \<noteq> []" by simp
    from Cons same_shape_length_concat [OF assms(1)] obtain p ps where ps: "concat y_pred = p # ps"
      by (cases "concat y_pred") auto
    then have "p \<in> set (concat y_pred)" by simp
    with assms(3) have "p \<noteq> []" by metis
    with ps have "concat (concat y_pred) \<noteq> []" by simp
    with labels show ?thesis by blast
  qed
  from focal_call_eq [OF assms(1) nonempty this] show ?thesis .
qed

text \<open>
  The theorem on three anchors with states 1, 0 and \<open>-1\<close>, with the absolute error
  standing for the library loss: the first two anchors contribute \<open>0.2 + 0.5\<close> and
  there is one positive anchor.
\<close>

theorem focal_call_excludes_only_ignored_witness:
  "same_shape [[[1, 0, 1], [0, 0, 0], [0, 1, - 1 :: real]]]
              [[[9 / 10, 1 / 10], [2 / 10, 3 / 10], [5 / 10, 5 / 10 :: real]]]
   \<and> list_all (\<lambda>t. 2 \<le> length t) (concat [[[1, 0, 1], [0, 0, 0], [0, 1, - 1 :: real]]])
   \<and> [] \<notin> set (concat [[[9 / 10, 1 / 10], [2 / 10, 3 / 10], [5 / 10, 5 / 10 :: real]]])
   \<and> EfficientDetFocalLoss_call (\<lambda>t p. Some (sum_list (map2 (\<lambda>a b. \<bar>a - b\<bar>) t p)))
         [[[1, 0, 1], [0, 0, 0], [0, 1, - 1]]]
         [[[9 / 10, 1 / 10], [2 / 10, 3 / 10], [5 / 10, 5 / 10]]]
       = Inr (Some (7 / 10))"
proof -
  have h1: "same_shape [[[1, 0, 1], [0, 0, 0], [0, 1, - 1 :: real]]]
              [[[9 / 10, 1 / 10], [2 / 10, 3 / 10], [5 / 10, 5 / 10 :: real]]]"
    by (simp add: same_shape_def)
  have h2: "\<forall>t \<in> set (concat [[[1, 0, 1], [0, 0, 0], [0, 1, - 1 :: real]]]). 2 \<le> length t"
    by simp
  have h3: "[] \<notin> set (concat [[[9 / 10, 1 / 10], [2 / 10, 3 / 10], [5 / 10, 5 / 10 :: real]]])"
    by simp
  show ?thesis
    using h1 h2 h3
      focal_call_excludes_only_ignored [OF h1 h2 h3,
        of "\<lambda>t p. Some (sum_list (map2 (\<lambda>a b. \<bar>a - b\<bar>) t p))"]
    by (simp add: anchor_rows_def count_positive_def)
qed

text \<open>
  Claim C2. The claim is about the Huber loss: only the anchors with state 1
  contribute, the summed loss is divided by \<open>max 1 n * 4\<close> and the quotient is
  multiplied by 50. The class as it stands returns no loss at all: for every
  \<open>\<delta>\<close> and every pair of tensors, building the loss object ends in the
  \<^verbatim>\<open>AttributeError\<close> of line 84, before \<^verbatim>\<open>call\<close> (which does not parse either) is
  reached.
\<close>

theorem huber_loss_raises_on_every_input:
  "EfficientDetHuberLoss_loss delta y_true y_pred
   = Inl (AttributeError ''_EfficientDetHuberLoss__init'')"
  by (simp add: EfficientDetHuberLoss_loss_def huber_loss_object_not_built)

text \<open>
  Claim C6. The claim is that on anchor states that are all \<open>-1\<close> both losses return a
  finite, non-negative scalar and never an error. The focal loss does: its object is
  built, nothing is gathered and the result is 0, whatever the library loss would
  return on a row. The Huber loss raises the \<^verbatim>\<open>AttributeError\<close> of line 84 instead.
\<close>

theorem all_ignored_focal_zero_huber_raises:
  assumes "same_shape y_true y_pred"
    and "\<forall>t \<in> set (concat y_true). t \<noteq> [] \<and> last t = - 1"
  shows "EfficientDetFocalLoss_loss alpha gamma per_sample y_true y_pred = Inr (Some 0)
         \<and> EfficientDetHuberLoss_loss delta y_true y_pred
             = Inl (AttributeError ''_EfficientDetHuberLoss__init'')"
  by (simp add: EfficientDetFocalLoss_loss_def focal_loss_object_built
      focal_call_all_ignored [OF assms] EfficientDetHuberLoss_loss_def huber_loss_object_not_built)

text \<open>
  The theorem on two ignored anchors, with the default hyperparameters and a library
  loss that is \<^verbatim>\<open>NaN\<close> on every row.
\<close>

theorem all_ignored_focal_zero_huber_raises_witness:
  "same_shape [[[0, 1, - 1], [1, 0, - 1 :: real]]] [[[3 / 10, 7 / 10], [6 / 10, 4 / 10 :: real]]]
   \<and> list_all (\<lambda>t. t \<noteq> [] \<and> last t = - 1) (concat [[[0, 1, - 1], [1, 0, - 1 :: real]]])
   \<and> EfficientDetFocalLoss_loss (1 / 4) (3 / 2) (\<lambda>t p. None) [[[0, 1, - 1], [1, 0, - 1]]]
        [[[3 / 10, 7 / 10], [6 / 10, 4 / 10]]] = Inr (Some 0)
   \<and> EfficientDetHuberLoss_loss 1 [[[0, 1, - 1], [1, 0, - 1]]]
        [[[3 / 10, 7 / 10], [6 / 10, 4 / 10]]] = Inl (AttributeError ''_EfficientDetHuberLoss__init'')"
proof -
  have h1: "same_shape [[[0, 1, - 1], [1, 0, - 1 :: real]]] [[[3 / 10, 7 / 10], [6 / 10, 4 / 10 :: real]]]"
    by (simp add: same_shape_def)
  have h2: "\<forall>t \<in> set (concat [[[0, 1, - 1], [1, 0, - 1 :: real]]]). t \<noteq> [] \<and> last t = - 1"
    by simp
  show ?thesis
    using h1 h2 all_ignored_focal_zero_huber_raises [OF h1 h2, of "1 / 4" "3 / 2" "\<lambda>t p. None" 1]
    by simp
qed

section \<open>Construction of the detector\<close>

lemma failed_raise: "failed (raise e)"
  by (simp add: failed_def raise_def)

lemma failed_and_then_first: "failed m \<Longrightarrow> failed (and_then m f)"
  by (cases m) (auto simp: failed_def and_then_def split: sum.splits)

lemma failed_and_then_rest:
  assumes "\<And>x. failed (f x)"
  shows "failed (and_then m f)"
proof (cases m)
  case (Pair tr r)
  show ?thesis
  proof (cases r)
    case (Inl e)
    with Pair show ?thesis by (simp add: failed_def and_then_def)
  next
    case (Inr x)
    obtain tr' r' where fx: "f x = (tr', r')" by (cases "f x")
    with assms [of x] have "isl r'" by (simp add: failed_def)
    with Pair Inr fx show ?thesis by (simp add: failed_def and_then_def)
  qed
qed

lemma failed_missing_classes:
  "failed (and_then (if (None :: int option) = None then raise e else r) f)"
  by (simp add: failed_and_then_first failed_raise)

text \<open>
  Claim C7. Construction with \<^verbatim>\<open>custom_head_classifier=True\<close> and
  \<^verbatim>\<open>num_classes=None\<close> ends in the \<^verbatim>\<open>ValueError\<close> of the first check, whatever the
  other arguments: only the initialiser of the base class has run, no collaborator has
  been called and no layer has been built.
\<close>

theorem init_custom_head_without_classes:
  "EfficientDet_init env None D bidirectional freeze_backbone thr weights True mode
   = ([KerasModelInit],
      Inl (ValueError ''If include_top is False, you must specify the num_classes''))"
  by (simp add: EfficientDet_init_def and_then_def extern_def raise_def)

lemma init_without_classes_failed:
  "failed (EfficientDet_init env None D bidirectional freeze_backbone thr weights custom mode)"
  unfolding EfficientDet_init_def Let_def case_prod_beta
  by (rule failed_missing_classes | rule failed_and_then_rest)+

text \<open>
  Claim C10. Construction with \<^verbatim>\<open>num_classes=None\<close> always ends in an exception.
  A checkpoint does not help: when \<^verbatim>\<open>weights='D0-VOC'\<close> is loaded and its
  \<^verbatim>\<open>hp.json\<close> carries \<^verbatim>\<open>n_classes\<close>, that count is never assigned to
  \<^verbatim>\<open>num_classes\<close>, and after the configuration, the backbone and the neck have been
  built the check that \<^verbatim>\<open>num_classes\<close> is not \<^verbatim>\<open>None\<close> raises.
\<close>

theorem init_without_num_classes_fails:
  "(\<exists>tr e. EfficientDet_init env None D bidirectional freeze_backbone thr weights custom mode
            = (tr, Inl e))
   \<and> (download_folder env ''gs://ml-generic-purpose-tf-models/D0-VOC'' = Inr save_dir
        \<longrightarrow> load_hp env (save_dir @ ''/hp.json'') = Inr params
        \<longrightarrow> params ''n_classes'' = Some n_classes
        \<longrightarrow> params ''bidirectional'' = Some bd
        \<longrightarrow> params ''efficientdet'' = Some d
        \<longrightarrow> EfficientDetCompudScaling env d = Inr cfg
        \<longrightarrow> efficientnet_backbone env (B cfg) None = Inr bb
        \<longrightarrow> BiFPN env (Wbifpn cfg) (Dbifpn cfg) ''bifpn/'' = Inr nk
        \<longrightarrow> EfficientDet_init env None D bidirectional freeze_backbone thr (Some ''D0-VOC'') False mode
            = ([KerasModelInit, DownloadFolder ''gs://ml-generic-purpose-tf-models/D0-VOC'',
                ReadHyperparameters (save_dir @ ''/hp.json''), MakeConfig d, MakeBackbone, MakeNeck],
               Inl (ValueError ''You have to specify the number of classes.'')))"
proof -
  have "\<exists>tr e. EfficientDet_init env None D bidirectional freeze_backbone thr weights custom mode
            = (tr, Inl e)"
    using init_without_classes_failed [of env D bidirectional freeze_backbone thr weights custom mode]
    by (cases "EfficientDet_init env None D bidirectional freeze_backbone thr weights custom mode")
      (auto simp: failed_def isl_def)
  moreover have "EfficientDet_init env None D bidirectional freeze_backbone thr (Some ''D0-VOC'') False mode
            = ([KerasModelInit, DownloadFolder ''gs://ml-generic-purpose-tf-models/D0-VOC'',
                ReadHyperparameters (save_dir @ ''/hp.json''), MakeConfig d, MakeBackbone, MakeNeck],
               Inl (ValueError ''You have to specify the number of classes.''))"
    if "download_folder env ''gs://ml-generic-purpose-tf-models/D0-VOC'' = Inr save_dir"
      "load_hp env (save_dir @ ''/hp.json'') = Inr params"
      "params ''n_classes'' = Some n_classes"
      "params ''bidirectional'' = Some bd"
      "params ''efficientdet'' = Some d"
      "EfficientDetCompudScaling env d = Inr cfg"
      "efficientnet_backbone env (B cfg) None = Inr bb"
      "BiFPN env (Wbifpn cfg) (Dbifpn cfg) ''bifpn/'' = Inr nk"
    using that
    by (simp add: EfficientDet_init_def and_then_def extern_def raise_def return_def
        subscript_def AVAILABLE_WEIGHTS_def WEIGHTS_PATHS_def)
  ultimately show ?thesis by blast
qed

text \<open>
  The theorem with collaborators that all succeed, on a checkpoint of 20 classes.
\<close>

theorem init_without_num_classes_fails_witness:
  "download_folder demo_env ''gs://ml-generic-purpose-tf-models/D0-VOC'' = Inr ''/tmp/D0-VOC''
   \<and> EfficientDet_init demo_env None 0 True False (1 / 10) (Some ''D0-VOC'') False False
       = ([KerasModelInit, DownloadFolder ''gs://ml-generic-purpose-tf-models/D0-VOC'',
           ReadHyperparameters ''/tmp/D0-VOC/hp.json'', MakeConfig (JNum 0), MakeBackbone, MakeNeck],
          Inl (ValueError ''You have to specify the number of classes.''))"
  using init_without_num_classes_fails [of demo_env 0 True False "1 / 10" "Some ''D0-VOC''" False False
      "''/tmp/D0-VOC''"
      "[''n_classes'' \<mapsto> JNum 20, ''bidirectional'' \<mapsto> JBool True, ''efficientdet'' \<mapsto> JNum 0]"
      "JNum 20" "JBool True" "JNum 0" "config demo_model" "backbone demo_model" "neck demo_model"]
  by (simp add: demo_env_def)

section \<open>The forward call and the score threshold\<close>

text \<open>
  Claim C8, as the code has it. Whether \<^verbatim>\<open>call\<close> returns the raw box offsets and
  class scores or the filtered detections depends on the model-level
  \<^verbatim>\<open>training_mode\<close> alone: a call that returns, returns the raw tensors exactly when
  \<^verbatim>\<open>training_mode\<close> is true. With \<^verbatim>\<open>training_mode\<close> true they are the outputs of
  the two heads on every feature level, concatenated along the anchors, with the
  per-call \<^verbatim>\<open>training\<close> flag handed to the backbone, the neck and the heads. With
  \<^verbatim>\<open>training_mode\<close> false the layers are given \<^verbatim>\<open>False\<close> whatever the per-call flag
  is, and the concatenated tensors go through the detection filter.
\<close>

theorem call_output_follows_training_mode:
  "(\<forall>out. EfficientDet_call run_filter self images training = Inr out
          \<longrightarrow> (is_TrainingOut out \<longleftrightarrow> training_mode self))
   \<and> (training_mode self \<longrightarrow>
        EfficientDet_call run_filter self images training =
          (case tf_concat_axis1 (map (\<lambda>bf. bb_head self bf training)
                  (neck self (backbone self images training) training)) of
             Inl e \<Rightarrow> Inl e
           | Inr bboxes \<Rightarrow>
               (case tf_concat_axis1 (map (\<lambda>bf. class_head self bf training)
                       (neck self (backbone self images training) training)) of
                  Inl e \<Rightarrow> Inl e
                | Inr class_scores \<Rightarrow> Inr (TrainingOut bboxes class_scores))))
   \<and> (\<not> training_mode self \<longrightarrow>
        EfficientDet_call run_filter self images training =
          (case tf_concat_axis1 (map (\<lambda>bf. bb_head self bf False)
                  (neck self (backbone self images False) False)) of
             Inl e \<Rightarrow> Inl e
           | Inr bboxes \<Rightarrow>
               (case tf_concat_axis1 (map (\<lambda>bf. class_head self bf False)
                       (neck self (backbone self images False) False)) of
                  Inl e \<Rightarrow> Inl e
                | Inr class_scores \<Rightarrow>
                    Inr (InferenceOut
                          (run_filter (filter_detections self) images bboxes class_scores)))))"
  by (auto simp: EfficientDet_call_def Let_def split: sum.splits)

text \<open>
  The theorem on the model whose layers record their flag, called with
  \<^verbatim>\<open>training=True\<close>: with \<^verbatim>\<open>training_mode\<close> true the raw tensors show the flag
  \<^verbatim>\<open>True\<close> in every layer; with \<^verbatim>\<open>training_mode\<close> switched off the layers were given
  \<^verbatim>\<open>False\<close> and the filtered detections are returned.
\<close>

theorem call_output_follows_training_mode_witness:
  "training_mode flagged_model
   \<and> EfficientDet_call demo_filter flagged_model () True
       = Inr (TrainingOut [[[1, 1, 0, 0], [1, 1, 0, 0]]] [[[1 / 2], [1 / 2]]])
   \<and> \<not> training_mode (flagged_model\<lparr>training_mode := False\<rparr>)
   \<and> EfficientDet_call demo_filter (flagged_model\<lparr>training_mode := False\<rparr>) () True
       = Inr (InferenceOut [[0, 0, 0, 0], [0, 0, 0, 0]])"
  using call_output_follows_training_mode [of demo_filter flagged_model "()" True]
    call_output_follows_training_mode
      [of demo_filter "flagged_model\<lparr>training_mode := False\<rparr>" "()" True]
  by (simp add: flagged_model_def demo_filter_def tf_concat_axis1_def)

text \<open>
  Claim C8, as stated, fails. It says that the raw tensors are returned only when both
  flags are true. The example model has \<^verbatim>\<open>training_mode\<close> true; called with
  \<^verbatim>\<open>training=False\<close> it returns the raw concatenated tensors, not detections.
\<close>

theorem call_raw_without_call_training_counterexample:
  "training_mode demo_model
   \<and> EfficientDet_call demo_filter demo_model () False
       = Inr (TrainingOut [[[0, 0, 1, 1], [0, 0, 1, 1]]] [[[9 / 10], [9 / 10]]])"
  by (simp add: EfficientDet_call_def demo_model_def tf_concat_axis1_def Let_def)

text \<open>
  Claim C9. After the assignment \<^verbatim>\<open>model.score_threshold = v\<close> the property reads
  \<open>v\<close>; a later call runs the detection filter on a filter object whose threshold is
  \<open>v\<close> and is otherwise the call of the model before the assignment; the
  configuration, the backbone, the neck, the heads, \<^verbatim>\<open>num_classes\<close>,
  \<^verbatim>\<open>training_mode\<close> and the anchors of the filter are unchanged.
\<close>

theorem score_threshold_assignment:
  "EfficientDet_score_threshold (EfficientDet_score_threshold_setter self v) = v
   \<and> EfficientDet_call run_filter (EfficientDet_score_threshold_setter self v) images training
       = EfficientDet_call (\<lambda>fd. run_filter (fd\<lparr>score_threshold := v\<rparr>)) self images training
   \<and> config (EfficientDet_score_threshold_setter self v) = config self
   \<and> backbone (EfficientDet_score_threshold_setter self v) = backbone self
   \<and> backbone_trainable (EfficientDet_score_threshold_setter self v) = backbone_trainable self
   \<and> neck (EfficientDet_score_threshold_setter self v) = neck self
   \<and> class_head (EfficientDet_score_threshold_setter self v) = class_head self
   \<and> bb_head (EfficientDet_score_threshold_setter self v) = bb_head self
   \<and> num_classes (EfficientDet_score_threshold_setter self v) = num_classes self
   \<and> training_mode (EfficientDet_score_threshold_setter self v) = training_mode self
   \<and> anchors_config (filter_detections (EfficientDet_score_threshold_setter self v))
       = anchors_config (filter_detections self)"
  by (simp add: EfficientDet_score_threshold_def EfficientDet_score_threshold_setter_def
      EfficientDet_call_def Let_def split: sum.splits)

end
